theory Spec2Isabelle
  imports Complex_Main "HOL-Library.Log_Nat" "HOL-Library.Sublist"
begin

section \<open>JavaScript numbers\<close>

text \<open>
  A JavaScript Number is an IEEE 754 binary64 value: not-a-number, a signed infinity, or
  a finite value. A finite value is kept as its sign (\<open>True\<close> for negative) and its
  magnitude, an exact non-negative rational, so that the two zeros \<open>+0\<close> and \<open>-0\<close>
  are \<open>Fin False 0\<close> and \<open>Fin True 0\<close>.
\<close>

datatype jsnum = NaN | Infinity bool | Fin bool rat

definition pow2 :: "int \<Rightarrow> rat" where
  "pow2 e = (if 0 \<le> e then 2 ^ nat e else 1 / 2 ^ nat (- e))"

definition pow10 :: "int \<Rightarrow> rat" where
  "pow10 e = (if 0 \<le> e then 10 ^ nat e else 1 / 10 ^ nat (- e))"

text \<open>
  \<open>numdigits b x\<close> is the number of digits of the positive integer \<open>x\<close> in base
  \<open>b\<close> (and \<open>0\<close> for \<open>x \<le> 0\<close>); \<open>ilog b a\<close> is \<open>\<lfloor>log\<^sub>b a\<rfloor>\<close> for a positive
  rational \<open>a\<close>, computed on integers.
\<close>

function numdigits :: "int \<Rightarrow> int \<Rightarrow> int" where
  "numdigits b x = (if 0 < x \<and> 1 < b then numdigits b (x div b) + 1 else 0)"
  by pat_completeness auto
termination
  by (relation "measure (\<lambda>(b, x). nat x)") (auto simp: int_div_less_self)

declare numdigits.simps [simp del]

definition ilog :: "int \<Rightarrow> rat \<Rightarrow> int" where
  "ilog b a = (if 1 \<le> a then numdigits b \<lfloor>a\<rfloor> - 1 else - numdigits b (\<lceil>1 / a\<rceil> - 1))"

definition round_half_even :: "rat \<Rightarrow> int" where
  "round_half_even m = (let f = \<lfloor>m\<rfloor>; r = m - of_int f
     in if r < 1 / 2 then f else if 1 / 2 < r then f + 1 else if even f then f else f + 1)"

text \<open>
  Rounding of an exact positive magnitude to binary64, to nearest with ties to even:
  53 significant bits, the exponent of the leading bit between \<open>-1022\<close> (below it the
  values are subnormal, on the fixed grid \<open>2\<^sup>-\<^sup>1\<^sup>0\<^sup>7\<^sup>4\<close>) and \<open>1023\<close> (above it the
  result is infinite).
\<close>

definition rnd :: "bool \<Rightarrow> rat \<Rightarrow> jsnum" where
  "rnd s a = (if a = 0 then Fin s 0 else
     let e = max (ilog 2 a) (- 1022); ulp = pow2 (e - 52);
         n = round_half_even (a / ulp)
     in if 1023 < e \<or> (e = 1023 \<and> n = 2 ^ 53) then Infinity s else Fin s (of_int n * ulp))"

text \<open>The Number denoted by a decimal literal or a JSON number of exact value \<open>q\<close>.\<close>

definition number :: "rat \<Rightarrow> jsnum" where
  "number q = rnd (q < 0) \<bar>q\<bar>"

definition num_neg :: "jsnum \<Rightarrow> jsnum" where
  "num_neg x = (case x of NaN \<Rightarrow> NaN | Infinity s \<Rightarrow> Infinity (\<not> s) | Fin s a \<Rightarrow> Fin (\<not> s) a)"

definition signed :: "bool \<Rightarrow> rat \<Rightarrow> rat" where
  "signed s a = (if s then - a else a)"

text \<open>\<open>x + y\<close> on Numbers: an exact zero sum is \<open>-0\<close> only when both operands are \<open>-0\<close>.\<close>

definition num_add :: "jsnum \<Rightarrow> jsnum \<Rightarrow> jsnum" where
  "num_add x y = (case (x, y) of
      (NaN, _) \<Rightarrow> NaN
    | (_, NaN) \<Rightarrow> NaN
    | (Infinity s, Infinity t) \<Rightarrow> (if s = t then Infinity s else NaN)
    | (Infinity s, Fin t b) \<Rightarrow> Infinity s
    | (Fin s a, Infinity t) \<Rightarrow> Infinity t
    | (Fin s a, Fin t b) \<Rightarrow>
        (let v = signed s a + signed t b
         in if v = 0 then Fin (s \<and> t) 0 else rnd (v < 0) \<bar>v\<bar>))"

definition num_sub :: "jsnum \<Rightarrow> jsnum \<Rightarrow> jsnum" where
  "num_sub x y = num_add x (num_neg y)"

definition num_mul :: "jsnum \<Rightarrow> jsnum \<Rightarrow> jsnum" where
  "num_mul x y = (case (x, y) of
      (NaN, _) \<Rightarrow> NaN
    | (_, NaN) \<Rightarrow> NaN
    | (Infinity s, Infinity t) \<Rightarrow> Infinity (s \<noteq> t)
    | (Infinity s, Fin t b) \<Rightarrow> (if b = 0 then NaN else Infinity (s \<noteq> t))
    | (Fin s a, Infinity t) \<Rightarrow> (if a = 0 then NaN else Infinity (s \<noteq> t))
    | (Fin s a, Fin t b) \<Rightarrow> rnd (s \<noteq> t) (a * b))"

definition num_div :: "jsnum \<Rightarrow> jsnum \<Rightarrow> jsnum" where
  "num_div x y = (case (x, y) of
      (NaN, _) \<Rightarrow> NaN
    | (_, NaN) \<Rightarrow> NaN
    | (Infinity s, Infinity t) \<Rightarrow> NaN
    | (Infinity s, Fin t b) \<Rightarrow> Infinity (s \<noteq> t)
    | (Fin s a, Infinity t) \<Rightarrow> Fin (s \<noteq> t) 0
    | (Fin s a, Fin t b) \<Rightarrow>
        (if b = 0 then (if a = 0 then NaN else Infinity (s \<noteq> t))
         else rnd (s \<noteq> t) (a / b)))"

text \<open>\<open>Math.floor\<close>: the floor of \<open>-a\<close> is \<open>-\<lceil>a\<rceil>\<close>; the zeros keep their sign.\<close>

definition Math_floor :: "jsnum \<Rightarrow> jsnum" where
  "Math_floor x = (case x of
      NaN \<Rightarrow> NaN
    | Infinity s \<Rightarrow> Infinity s
    | Fin s a \<Rightarrow> (if s then Fin True (of_int \<lceil>a\<rceil>) else Fin False (of_int \<lfloor>a\<rfloor>)))"

text \<open>
  \<open>Math.round\<close>: the nearest integer, a tie going towards \<open>+\<infinity>\<close>, that is
  \<open>\<lfloor>x + 1/2\<rfloor>\<close> computed exactly; a negative argument that rounds to zero gives \<open>-0\<close>.
\<close>

definition Math_round :: "jsnum \<Rightarrow> jsnum" where
  "Math_round x = (case x of
      NaN \<Rightarrow> NaN
    | Infinity s \<Rightarrow> Infinity s
    | Fin s a \<Rightarrow> (if s then Fin True (of_int \<lceil>a - 1 / 2\<rceil>) else Fin False (of_int \<lfloor>a + 1 / 2\<rfloor>)))"

text \<open>Strict equality \<open>===\<close> on Numbers: \<open>NaN\<close> equals nothing, and \<open>+0 === -0\<close>.\<close>

definition num_strict_eq :: "jsnum \<Rightarrow> jsnum \<Rightarrow> bool" where
  "num_strict_eq x y = (case (x, y) of
      (Infinity s, Infinity t) \<Rightarrow> s = t
    | (Fin s a, Fin t b) \<Rightarrow> a = b \<and> (s = t \<or> a = 0)
    | _ \<Rightarrow> False)"

section \<open>Numbers to strings\<close>

text \<open>
  Strings are kept as \<open>string\<close>, the UTF-8 bytes of the JavaScript string. The service
  looks inside a string only to skip white space and to read or write digits, signs,
  literal words and padding: all of these are ASCII, where a byte is a UTF-16 code unit,
  but for the white space code points beyond ASCII, which are recognised in their UTF-8
  form.
\<close>

definition digit_char :: "int \<Rightarrow> char" where
  "digit_char d = ''0123456789'' ! nat d"

function decimal_digits :: "int \<Rightarrow> string" where
  "decimal_digits n = (if n < 10 then [digit_char n]
                       else decimal_digits (n div 10) @ [digit_char (n mod 10)])"
  by pat_completeness auto
termination
  by (relation "measure nat") (auto simp: int_div_less_self)

declare decimal_digits.simps [simp del]

text \<open>
  \<open>Number::toString\<close> (radix 10) of a positive finite value \<open>a\<close> needs integers
  \<open>n\<close>, \<open>k\<close>, \<open>s\<close> with \<open>k \<ge> 1\<close>, \<open>10\<^sup>k\<^sup>-\<^sup>1 \<le> s < 10\<^sup>k\<close>, \<open>s \<times> 10\<^sup>n\<^sup>-\<^sup>k\<close> rounding to
  \<open>a\<close>, and \<open>k\<close> as small as possible; among several such \<open>s\<close> the one closest to
  \<open>a\<close> is taken, the even one on a tie. With \<open>10\<^sup>n\<^sup>0\<^sup>-\<^sup>1 \<le> a < 10\<^sup>n\<^sup>0\<close>, the candidates
  for a given \<open>k\<close> are the two integers around \<open>a / 10\<^sup>n\<^sup>0\<^sup>-\<^sup>k\<close>. Seventeen digits
  identify every binary64 value, so the search stops there.
\<close>

definition roundtrips :: "rat \<Rightarrow> rat \<Rightarrow> bool" where
  "roundtrips a v = (rnd False v = Fin False a)"

definition closest :: "rat \<Rightarrow> int \<Rightarrow> int \<Rightarrow> int" where
  "closest y lo hi =
     (if y - of_int lo < of_int hi - y then lo
      else if of_int hi - y < y - of_int lo then hi
      else if even lo then lo else hi)"

function shortest :: "rat \<Rightarrow> int \<Rightarrow> nat \<Rightarrow> nat \<times> int" where
  "shortest a n0 k =
     (let scale = pow10 (n0 - int k); y = a / scale; lo = \<lfloor>y\<rfloor>; hi = \<lceil>y\<rceil>;
          oklo = roundtrips a (of_int lo * scale); okhi = roundtrips a (of_int hi * scale)
      in if oklo \<and> okhi then (k, closest y lo hi)
         else if oklo then (k, lo)
         else if okhi then (k, hi)
         else if k < 17 then shortest a n0 (Suc k)
         else (k, closest y lo hi))"
  by pat_completeness auto
termination
  by (relation "measure (\<lambda>(a, n0, k). 17 - k)") auto

declare shortest.simps [simp del]

definition exponent_digits :: "rat \<Rightarrow> int \<times> nat \<times> int" where
  "exponent_digits a =
     (let n0 = ilog 10 a + 1; (k, s) = shortest a n0 1
      in if s = 10 ^ k then (n0 + 1, 1, 1) else (n0, k, s))"

definition format_number :: "int \<times> nat \<times> int \<Rightarrow> string" where
  "format_number nks = (case nks of (n, k, s) \<Rightarrow>
     (let ds = decimal_digits s in
      if - 5 \<le> n \<and> n \<le> 21 then
        (if int k \<le> n then ds @ replicate (nat (n - int k)) CHR ''0''
         else if 0 < n then take (nat n) ds @ ''.'' @ drop (nat n) ds
         else ''0.'' @ replicate (nat (- n)) CHR ''0'' @ ds)
      else
        (let e = n - 1; ex = (if e < 0 then ''-'' else ''+'') @ decimal_digits \<bar>e\<bar>
         in if k = 1 then ds @ ''e'' @ ex
            else take 1 ds @ ''.'' @ drop 1 ds @ ''e'' @ ex)))"

definition Number_toString :: "jsnum \<Rightarrow> string" where
  "Number_toString x = (case x of
      NaN \<Rightarrow> ''NaN''
    | Infinity s \<Rightarrow> (if s then ''-Infinity'' else ''Infinity'')
    | Fin s a \<Rightarrow>
        (if a = 0 then ''0''
         else (if s then ''-'' else []) @ format_number (exponent_digits a)))"

text \<open>\<open>String.prototype.padStart(n, c)\<close> for a one-character filler \<open>c\<close>.\<close>

definition padStart :: "nat \<Rightarrow> char \<Rightarrow> string \<Rightarrow> string" where
  "padStart n c s = replicate (n - length s) c @ s"

section \<open>Strings to numbers\<close>

text \<open>
  The byte length of a \<open>StrWhiteSpaceChar\<close> at the head of a string, \<open>0\<close> when there
  is none: TAB, LF, VT, FF, CR, SP, and in UTF-8 the code points U+00A0, U+1680,
  U+2000 to U+200A, U+2028, U+2029, U+202F, U+205F, U+3000 and U+FEFF.
\<close>

definition ws_len :: "string \<Rightarrow> nat" where
  "ws_len s =
     (if take 1 s \<in> set [[CHR 0x09], [CHR 0x0A], [CHR 0x0B], [CHR 0x0C], [CHR 0x0D], [CHR 0x20]]
        then 1
      else if take 2 s = [CHR 0xC2, CHR 0xA0] then 2
      else if take 3 s \<in> set
          [[CHR 0xE1, CHR 0x9A, CHR 0x80],
           [CHR 0xE2, CHR 0x80, CHR 0x80], [CHR 0xE2, CHR 0x80, CHR 0x81],
           [CHR 0xE2, CHR 0x80, CHR 0x82], [CHR 0xE2, CHR 0x80, CHR 0x83],
           [CHR 0xE2, CHR 0x80, CHR 0x84], [CHR 0xE2, CHR 0x80, CHR 0x85],
           [CHR 0xE2, CHR 0x80, CHR 0x86], [CHR 0xE2, CHR 0x80, CHR 0x87],
           [CHR 0xE2, CHR 0x80, CHR 0x88], [CHR 0xE2, CHR 0x80, CHR 0x89],
           [CHR 0xE2, CHR 0x80, CHR 0x8A],
           [CHR 0xE2, CHR 0x80, CHR 0xA8], [CHR 0xE2, CHR 0x80, CHR 0xA9],
           [CHR 0xE2, CHR 0x80, CHR 0xAF], [CHR 0xE2, CHR 0x81, CHR 0x9F],
           [CHR 0xE3, CHR 0x80, CHR 0x80], [CHR 0xEF, CHR 0xBB, CHR 0xBF]]
        then 3
      else 0)"

lemma ws_len_shorter: "0 < ws_len s \<Longrightarrow> length s - ws_len s < length s"
  by (cases s) (auto simp: ws_len_def)

text \<open>\<open>TrimString(s, start)\<close>: drop the leading white space.\<close>

function skip_ws :: "string \<Rightarrow> string" where
  "skip_ws s = (if ws_len s = 0 then s else skip_ws (drop (ws_len s) s))"
  by pat_completeness auto
termination
  by (relation "measure length") (auto simp: ws_len_shorter)

declare skip_ws.simps [simp del]

definition is_digit :: "char \<Rightarrow> bool" where
  "is_digit c = (c \<in> set ''0123456789'')"

text \<open>The value of a digit in radix up to 16, \<open>None\<close> for any other character.\<close>

definition digit_value :: "char \<Rightarrow> int option" where
  "digit_value c =
     (let n = int (of_char c) in
      if 48 \<le> n \<and> n \<le> 57 then Some (n - 48)
      else if 97 \<le> n \<and> n \<le> 102 then Some (n - 87)
      else if 65 \<le> n \<and> n \<le> 70 then Some (n - 55)
      else None)"

definition is_radix_digit :: "int \<Rightarrow> char \<Rightarrow> bool" where
  "is_radix_digit r c = (case digit_value c of None \<Rightarrow> False | Some d \<Rightarrow> d < r)"

definition digits_value :: "int \<Rightarrow> string \<Rightarrow> int" where
  "digits_value r ds = foldl (\<lambda>acc c. acc * r + the (digit_value c)) 0 ds"

text \<open>
  The longest prefix that is a \<open>StrUnsignedDecimalLiteral\<close>, with its exact value
  (\<open>None\<close> for \<open>Infinity\<close>) and the rest of the string:
  \<open>Infinity\<close>, or digits with an optional fraction and an optional exponent part, at
  least one digit before the exponent. An \<open>e\<close> that no digit follows is not part of the
  literal.
\<close>

definition parse_exponent :: "string \<Rightarrow> int \<times> string" where
  "parse_exponent s =
     (if take 1 s = ''e'' \<or> take 1 s = ''E'' then
        (let t = drop 1 s;
             neg = (take 1 t = ''-'');
             u = (if take 1 t = ''-'' \<or> take 1 t = ''+'' then drop 1 t else t);
             ds = takeWhile is_digit u
         in if ds = [] then (0, s)
            else ((if neg then - digits_value 10 ds else digits_value 10 ds), dropWhile is_digit u))
      else (0, s))"

definition parse_unsigned_decimal :: "string \<Rightarrow> (rat option \<times> string) option" where
  "parse_unsigned_decimal s =
     (if take 8 s = ''Infinity'' then Some (None, drop 8 s)
      else
        (let ip = takeWhile is_digit s; r1 = dropWhile is_digit s;
             dot = (take 1 r1 = ''.'');
             fp = (if dot then takeWhile is_digit (drop 1 r1) else []);
             r2 = (if dot then dropWhile is_digit (drop 1 r1) else r1)
         in if ip = [] \<and> fp = [] then None
            else (case parse_exponent r2 of (ex, r3) \<Rightarrow>
                    Some (Some (of_int (digits_value 10 (ip @ fp)) * pow10 (ex - int (length fp))),
                          r3))))"

text \<open>The longest prefix that is a \<open>StrDecimalLiteral\<close>: an optional sign first.\<close>

definition parse_decimal :: "string \<Rightarrow> (jsnum \<times> string) option" where
  "parse_decimal s =
     (let neg = (take 1 s = ''-'');
          u = (if take 1 s = ''-'' \<or> take 1 s = ''+'' then drop 1 s else s)
      in case parse_unsigned_decimal u of
           None \<Rightarrow> None
         | Some (None, rest) \<Rightarrow> Some (Infinity neg, rest)
         | Some (Some q, rest) \<Rightarrow> Some (rnd neg q, rest))"

text \<open>
  The longest prefix that is a \<open>NonDecimalIntegerLiteral\<close>: \<open>0b\<close>, \<open>0o\<close> or \<open>0x\<close>
  (either case) and at least one digit of that radix; no sign.
\<close>

definition parse_non_decimal :: "string \<Rightarrow> (jsnum \<times> string) option" where
  "parse_non_decimal s =
     (let p = take 2 s;
          r = (if p = ''0b'' \<or> p = ''0B'' then 2
               else if p = ''0o'' \<or> p = ''0O'' then 8
               else if p = ''0x'' \<or> p = ''0X'' then 16 else 0);
          ds = takeWhile (is_radix_digit r) (drop 2 s)
      in if r = 0 \<or> ds = [] then None
         else Some (rnd False (of_int (digits_value r ds)),
                    dropWhile (is_radix_digit r) (drop 2 s)))"

text \<open>
  \<open>StringToNumber\<close>: white space only is \<open>+0\<close>; otherwise the string, white space
  trimmed at both ends, must be one numeric literal, else the result is \<open>NaN\<close>.
\<close>

definition StringToNumber :: "string \<Rightarrow> jsnum" where
  "StringToNumber s =
     (let t = skip_ws s in
      if t = [] then Fin False 0
      else (case (case parse_non_decimal t of None \<Rightarrow> parse_decimal t | Some r \<Rightarrow> Some r) of
              None \<Rightarrow> NaN
            | Some (v, rest) \<Rightarrow> (if skip_ws rest = [] then v else NaN)))"

text \<open>\<open>parseFloat\<close> and \<open>parseInt\<close> (no radix argument) on a string.\<close>

definition parseFloat_string :: "string \<Rightarrow> jsnum" where
  "parseFloat_string s = (case parse_decimal (skip_ws s) of None \<Rightarrow> NaN | Some (v, rest) \<Rightarrow> v)"

definition parseInt_string :: "string \<Rightarrow> jsnum" where
  "parseInt_string s =
     (let t = skip_ws s;
          neg = (take 1 t = ''-'');
          u = (if take 1 t = ''-'' \<or> take 1 t = ''+'' then drop 1 t else t);
          hex = (take 2 u = ''0x'' \<or> take 2 u = ''0X'');
          r = (if hex then 16 else 10);
          z = takeWhile (is_radix_digit r) (if hex then drop 2 u else u)
      in if z = [] then NaN else rnd neg (of_int (digits_value r z)))"

section \<open>JavaScript values and their conversions\<close>

text \<open>
  The values that a parsed JSON body can hold, and \<open>undefined\<close> for a property that
  the body does not have. An object is the list of its own properties.
\<close>

datatype jsval =
    JUndefined
  | JNull
  | JBool bool
  | JNum jsnum
  | JStr string
  | JArr "jsval list"
  | JObj "(string \<times> jsval) list"

datatype js_error = TypeError

text \<open>\<open>ToBoolean\<close>: what \<open>!v\<close> and \<open>v || w\<close> test.\<close>

definition truthy :: "jsval \<Rightarrow> bool" where
  "truthy v = (case v of
      JUndefined \<Rightarrow> False
    | JNull \<Rightarrow> False
    | JBool b \<Rightarrow> b
    | JNum x \<Rightarrow> (case x of NaN \<Rightarrow> False | Infinity s \<Rightarrow> True | Fin s a \<Rightarrow> a \<noteq> 0)
    | JStr s \<Rightarrow> s \<noteq> []
    | JArr xs \<Rightarrow> True
    | JObj kvs \<Rightarrow> True)"

fun join_strings :: "string list \<Rightarrow> string" where
  "join_strings [] = []"
| "join_strings [s] = s"
| "join_strings (s # t # ts) = s @ '','' @ join_strings (t # ts)"

text \<open>
  \<open>ToString\<close>. An array is joined with commas, \<open>null\<close> and \<open>undefined\<close> elements
  giving the empty string. An object of a JSON body has no callable property of its own:
  when it has an own property \<open>toString\<close>, neither that nor \<open>valueOf\<close> yields a
  primitive and the conversion throws a TypeError; otherwise \<open>Object.prototype.toString\<close>
  answers \<open>[object Object]\<close>.
\<close>

fun ToString :: "jsval \<Rightarrow> js_error + string" where
  "ToString JUndefined = Inr ''undefined''"
| "ToString JNull = Inr ''null''"
| "ToString (JBool b) = Inr (if b then ''true'' else ''false'')"
| "ToString (JNum x) = Inr (Number_toString x)"
| "ToString (JStr s) = Inr s"
| "ToString (JArr xs) =
     (let rs = map (\<lambda>x. if x = JUndefined \<or> x = JNull then Inr [] else ToString x) xs
      in if list_ex isl rs then Inl TypeError else Inr (join_strings (map projr rs)))"
| "ToString (JObj kvs) =
     (if ''toString'' \<in> set (map fst kvs) then Inl TypeError else Inr ''[object Object]'')"

text \<open>
  \<open>ToNumber\<close>. An array or object is first made primitive, which for the values of a
  JSON body gives the same string, or the same TypeError, as \<open>ToString\<close>.
\<close>

definition ToNumber :: "jsval \<Rightarrow> js_error + jsnum" where
  "ToNumber v = (case v of
      JUndefined \<Rightarrow> Inr NaN
    | JNull \<Rightarrow> Inr (Fin False 0)
    | JBool b \<Rightarrow> Inr (Fin False (if b then 1 else 0))
    | JNum x \<Rightarrow> Inr x
    | JStr s \<Rightarrow> Inr (StringToNumber s)
    | _ \<Rightarrow> (case ToString v of Inl e \<Rightarrow> Inl e | Inr s \<Rightarrow> Inr (StringToNumber s)))"

text \<open>The global \<open>parseFloat(v)\<close> and \<open>parseInt(v)\<close>: \<open>ToString(v)\<close> first.\<close>

definition parseFloat :: "jsval \<Rightarrow> js_error + jsnum" where
  "parseFloat v = (case ToString v of Inl e \<Rightarrow> Inl e | Inr s \<Rightarrow> Inr (parseFloat_string s))"

definition parseInt :: "jsval \<Rightarrow> js_error + jsnum" where
  "parseInt v = (case ToString v of Inl e \<Rightarrow> Inl e | Inr s \<Rightarrow> Inr (parseInt_string s))"

section \<open>The run record service\<close>

text \<open>
  A run as the service stores it. \<open>date\<close> and \<open>location\<close> are kept as the request
  gave them, whatever their JSON type; \<open>distance\<close> and \<open>duration\<close> are the results of
  \<open>parseFloat\<close> and \<open>parseInt\<close>; the field \<open>id\<close> of the source is \<open>id_run\<close> here.
\<close>

record run =
  id_run :: jsnum
  date :: jsval
  distance :: jsnum
  duration :: jsnum
  pace :: string
  location :: jsval

text \<open>
  What a handler hands to the response object: the status and the value given to
  \<open>res.json\<close> (or nothing, for \<open>res.send()\<close>). A handler that throws replies nothing
  itself.
\<close>

datatype payload =
    RunsBody "run list"
  | RunBody run
  | ErrorBody string
  | HealthBody string string
  | NoBody

datatype response = Response (status: nat) (body: payload)

datatype outcome = Replied response | Threw js_error

text \<open>The module-level \<open>runs\<close> array at start-up.\<close>

definition initial_runs :: "run list" where
  "initial_runs =
     [\<lparr>id_run = number 1, date = JStr ''2024-01-15'', distance = number (52 / 10),
       duration = number 28, pace = ''5:23'', location = JStr ''Central Park''\<rparr>,
      \<lparr>id_run = number 2, date = JStr ''2024-01-17'', distance = number (31 / 10),
       duration = number 18, pace = ''5:48'', location = JStr ''Riverside Trail''\<rparr>]"

text \<open>
  \<open>calculatePace(distance, duration)\<close>. The handler passes the raw body values, so the
  division converts both operands with \<open>ToNumber\<close>, the left one (\<open>duration\<close>) first.
\<close>

definition calculatePace :: "jsval \<Rightarrow> jsval \<Rightarrow> js_error + string" where
  "calculatePace distance' duration' =
     (case ToNumber duration' of Inl e \<Rightarrow> Inl e | Inr t \<Rightarrow>
      case ToNumber distance' of Inl e \<Rightarrow> Inl e | Inr d \<Rightarrow>
        (let paceInMinutes = num_div t d;
             minutes = Math_floor paceInMinutes;
             seconds = Math_round (num_mul (num_sub paceInMinutes minutes) (number 60))
         in Inr (Number_toString minutes @ '':'' @ padStart 2 CHR ''0'' (Number_toString seconds))))"

text \<open>
  The request body is the object that \<open>express.json()\<close> parsed, a map from property
  names to values. Destructuring reads its properties: \<open>undefined\<close> for a property that
  the body does not have.
\<close>

definition get_prop :: "(string \<rightharpoonup> jsval) \<Rightarrow> string \<Rightarrow> jsval" where
  "get_prop b k = (case b k of None \<Rightarrow> JUndefined | Some v \<Rightarrow> v)"

text \<open>\<open>GET /api/runs\<close>.\<close>

definition get_api_runs :: "run list \<Rightarrow> outcome \<times> run list" where
  "get_api_runs runs = (Replied (Response 200 (RunsBody runs)), runs)"

text \<open>
  \<open>POST /api/runs\<close>. \<open>runs.length\<close> is an exact Number, and \<open>+ 1\<close> is Number
  addition. The record is pushed only after every field has been computed, so a
  conversion that throws leaves \<open>runs\<close> as it was.
\<close>

definition post_api_runs :: "(string \<rightharpoonup> jsval) \<Rightarrow> run list \<Rightarrow> outcome \<times> run list" where
  "post_api_runs req_body runs =
     (let date' = get_prop req_body ''date''; distance' = get_prop req_body ''distance'';
          duration' = get_prop req_body ''duration''; location' = get_prop req_body ''location''
      in if \<not> truthy date' \<or> \<not> truthy distance' \<or> \<not> truthy duration'
         then (Replied (Response 400 (ErrorBody ''Missing required fields'')), runs)
         else
           (case calculatePace distance' duration' of Inl e \<Rightarrow> (Threw e, runs) | Inr pace' \<Rightarrow>
            case parseFloat distance' of Inl e \<Rightarrow> (Threw e, runs) | Inr d \<Rightarrow>
            case parseInt duration' of Inl e \<Rightarrow> (Threw e, runs) | Inr t \<Rightarrow>
              (let newRun = \<lparr>id_run = num_add (Fin False (of_nat (length runs))) (number 1),
                             date = date',
                             distance = d,
                             duration = t,
                             pace = pace',
                             location = (if truthy location' then location' else JStr ''Unknown'')\<rparr>
               in (Replied (Response 201 (RunBody newRun)), runs @ [newRun]))))"

text \<open>\<open>Array.prototype.findIndex\<close>: the first index whose element satisfies \<open>p\<close>, or \<open>-1\<close>.\<close>

fun findIndex_from :: "('a \<Rightarrow> bool) \<Rightarrow> 'a list \<Rightarrow> int \<Rightarrow> int" where
  "findIndex_from p [] k = - 1"
| "findIndex_from p (x # xs) k = (if p x then k else findIndex_from p xs (k + 1))"

definition findIndex :: "('a \<Rightarrow> bool) \<Rightarrow> 'a list \<Rightarrow> int" where
  "findIndex p xs = findIndex_from p xs 0"

text \<open>
  \<open>Array.prototype.splice(start, deleteCount)\<close>, as the array it leaves behind: a
  negative \<open>start\<close> counts from the end, and both arguments are clamped to the array.
\<close>

definition splice :: "int \<Rightarrow> int \<Rightarrow> 'a list \<Rightarrow> 'a list" where
  "splice start deleteCount xs =
     (let len = int (length xs);
          actualStart = (if start < 0 then max (len + start) 0 else min start len);
          actualDeleteCount = min (max deleteCount 0) (len - actualStart)
      in take (nat actualStart) xs @ drop (nat (actualStart + actualDeleteCount)) xs)"

text \<open>\<open>DELETE /api/runs/:id\<close>, with \<open>req.params.id\<close> the path segment, a string.\<close>

definition delete_api_runs_id :: "string \<Rightarrow> run list \<Rightarrow> outcome \<times> run list" where
  "delete_api_runs_id params_id runs =
     (case parseInt (JStr params_id) of Inl e \<Rightarrow> (Threw e, runs) | Inr id' \<Rightarrow>
        (let index = findIndex (\<lambda>run. num_strict_eq (id_run run) id') runs
         in if index = - 1
            then (Replied (Response 404 (ErrorBody ''Run not found'')), runs)
            else (Replied (Response 204 NoBody), splice index 1 runs)))"

text \<open>
  \<open>GET /health\<close>. The clock is the environment's: \<open>now\<close> is what
  \<open>new Date().toISOString()\<close> returns when the handler runs.
\<close>

definition get_health :: "string \<Rightarrow> run list \<Rightarrow> outcome \<times> run list" where
  "get_health now runs =
     (Replied (Response 200 (HealthBody ''healthy'' now)), runs)"

text \<open>Requests to the four routes, and the service run on a sequence of them.\<close>

datatype request =
    ListRuns
  | CreateRun "string \<rightharpoonup> jsval"
  | DeleteRun string
  | Health string

fun handle :: "request \<Rightarrow> run list \<Rightarrow> outcome \<times> run list" where
  "handle ListRuns runs = get_api_runs runs"
| "handle (CreateRun req_body) runs = post_api_runs req_body runs"
| "handle (DeleteRun params_id) runs = delete_api_runs_id params_id runs"
| "handle (Health now) runs = get_health now runs"

fun serve :: "request list \<Rightarrow> run list \<Rightarrow> run list" where
  "serve [] runs = runs"
| "serve (rq # rqs) runs = serve rqs (snd (handle rq runs))"

text \<open>The records that \<open>POST /api/runs\<close> created along a sequence of requests, in order.\<close>

fun created :: "request list \<Rightarrow> run list \<Rightarrow> run list" where
  "created [] runs = []"
| "created (rq # rqs) runs =
     (case handle rq runs of
        (Replied (Response st (RunBody r)), runs') \<Rightarrow> r # created rqs runs'
      | (_, runs') \<Rightarrow> created rqs runs')"

section \<open>The specification's notions\<close>

text \<open>
  The pace as the specification words it: \<open>pace_minutes = duration / distance\<close>,
  \<open>whole_minutes = floor(pace_minutes)\<close>,
  \<open>seconds = round((pace_minutes - whole_minutes) \<times> 60)\<close>, rendered as the whole minutes,
  a colon, and the seconds zero-padded to two digits. The arithmetic is that of the
  specification's data model, where a distance is a floating-point value.
\<close>

definition zero_pad2 :: "string \<Rightarrow> string" where
  "zero_pad2 s = (if length s < 2 then replicate (2 - length s) CHR ''0'' @ s else s)"

definition spec_pace :: "jsnum \<Rightarrow> jsnum \<Rightarrow> string" where
  "spec_pace t d =
     (let pace_minutes = num_div t d;
          whole_minutes = Math_floor pace_minutes;
          seconds = Math_round (num_mul (num_sub pace_minutes whole_minutes) (Fin False 60))
      in Number_toString whole_minutes @ '':'' @ zero_pad2 (Number_toString seconds))"

text \<open>
  A valid create request: the date passes the presence test (every non-empty string
  does), the distance is a positive Number and the duration a positive integer Number.
\<close>

definition positive_number :: "jsval \<Rightarrow> bool" where
  "positive_number v = (case v of
      JNum (Infinity s) \<Rightarrow> \<not> s
    | JNum (Fin s a) \<Rightarrow> \<not> s \<and> 0 < a
    | _ \<Rightarrow> False)"

definition positive_integer :: "jsval \<Rightarrow> bool" where
  "positive_integer v = (case v of
      JNum (Fin s a) \<Rightarrow> \<not> s \<and> 0 < a \<and> of_int \<lfloor>a\<rfloor> = a
    | _ \<Rightarrow> False)"

definition valid_create :: "(string \<rightharpoonup> jsval) \<Rightarrow> bool" where
  "valid_create req_body =
     (truthy (get_prop req_body ''date'') \<and>
      positive_number (get_prop req_body ''distance'') \<and>
      positive_integer (get_prop req_body ''duration''))"

text \<open>The Number inside a numeric JSON value.\<close>

definition the_number :: "jsval \<Rightarrow> jsnum" where
  "the_number v = (case v of JNum x \<Rightarrow> x | _ \<Rightarrow> NaN)"

text \<open>The request of the specification's example, and a second one.\<close>

definition example_body :: "string \<rightharpoonup> jsval" where
  "example_body = map_of
     [(''date'', JStr ''2024-01-15''), (''distance'', JNum (number (52 / 10))),
      (''duration'', JNum (number 28)), (''location'', JStr ''Central Park'')]"

definition second_body :: "string \<rightharpoonup> jsval" where
  "second_body = map_of
     [(''date'', JStr ''2024-01-17''), (''distance'', JNum (number (31 / 10))),
      (''duration'', JNum (number 18)), (''location'', JStr ''Riverside Trail'')]"

text \<open>The two error conditions of the specification, as the replies that report them.\<close>

definition MissingField :: outcome where
  "MissingField = Replied (Response 400 (ErrorBody ''Missing required fields''))"

definition NotFound :: outcome where
  "NotFound = Replied (Response 404 (ErrorBody ''Run not found''))"

text \<open>
  ``Absent or empty'', read as widely as the words allow: no such property, \<open>null\<close>, the
  empty string, the empty array or the empty object.
\<close>

definition absent_or_empty :: "jsval \<Rightarrow> bool" where
  "absent_or_empty v = (v = JUndefined \<or> v = JNull \<or> v = JStr [] \<or> v = JArr [] \<or> v = JObj [])"

text \<open>A delete request's id matches a record: \<open>run.id === parseInt(req.params.id)\<close>.\<close>

definition matches_id :: "string \<Rightarrow> run \<Rightarrow> bool" where
  "matches_id params_id r = num_strict_eq (id_run r) (parseInt_string params_id)"

text \<open>Requests with a zero distance: the JSON number \<open>0\<close>, and the string \<open>"0"\<close>.\<close>

definition zero_distance_body :: "string \<rightharpoonup> jsval" where
  "zero_distance_body = map_of
     [(''date'', JStr ''2024-01-15''), (''distance'', JNum (number 0)),
      (''duration'', JNum (number 28))]"

definition string_zero_body :: "string \<rightharpoonup> jsval" where
  "string_zero_body = map_of
     [(''date'', JStr ''2024-01-15''), (''distance'', JStr ''0''),
      (''duration'', JNum (number 28))]"

text \<open>A request whose seconds round up to sixty.\<close>

definition one_sixty_body :: "string \<rightharpoonup> jsval" where
  "one_sixty_body = map_of
     [(''date'', JStr ''2024-01-15''), (''distance'', JNum (number (1002 / 1000))),
      (''duration'', JNum (number 2))]"

text \<open>
  A sequence of requests on the seeded service, and the run that its create request
  makes after the first seed record has been deleted.
\<close>

definition recreated_run :: run where
  "recreated_run =
     \<lparr>id_run = Fin False 2, date = JStr ''2024-01-15'', distance = number (52 / 10),
      duration = Fin False 28, pace = ''5:23'', location = JStr ''Central Park''\<rparr>"

definition sample_requests :: "request list" where
  "sample_requests =
     [DeleteRun ''1'', CreateRun example_body, ListRuns, Health ''2024-01-15T10:00:00.000Z'']"

section \<open>Integers are exact\<close>

text \<open>
  Every positive integer up to \<open>2\<^sup>5\<^sup>3\<close> is a binary64 value: rounding leaves it as it
  is. So \<open>runs.length + 1\<close> is the exact successor for every array that JavaScript can
  hold (an array has fewer than \<open>2\<^sup>3\<^sup>2\<close> elements).
\<close>

lemma numdigits_2_bitlen: "b = 2 \<Longrightarrow> numdigits b x = bitlen x"
proof (induction b x rule: numdigits.induct)
  case (1 b x)
  show ?case
  proof (cases "0 < x")
    case True
    with 1 have "numdigits b (x div b) = bitlen (x div b)" by simp
    with True 1(2) show ?thesis
      by (subst numdigits.simps, subst compute_bitlen) simp
  next
    case False
    then show ?thesis
      by (subst numdigits.simps, subst compute_bitlen) simp
  qed
qed

lemma round_half_even_of_int: "round_half_even (of_int k) = k"
  by (simp add: round_half_even_def)

lemma ilog_2_of_nat: "0 < n \<Longrightarrow> ilog 2 (of_nat n) = bitlen (int n) - 1"
  by (simp add: ilog_def numdigits_2_bitlen)

lemma rnd_of_nat:
  assumes "0 < n" and "n \<le> 2 ^ 53"
  shows "rnd s (of_nat n) = Fin s (of_nat n)"
proof -
  define e where "e = bitlen (int n) - 1"
  from assms(1) have pos: "0 < int n" by simp
  from bitlen_bounds [OF pos] have lo: "2 ^ nat e \<le> int n" and hi: "int n < 2 ^ nat (bitlen (int n))"
    by (simp_all add: e_def)
  from pos have e0: "0 \<le> e"
    unfolding e_def by (simp add: bitlen_alt_def)
  have "(2::int) ^ nat e \<le> 2 ^ 53"
    using lo assms(2) by (metis of_nat_le_iff of_nat_numeral of_nat_power order_trans)
  then have "nat e \<le> 53"
    by (rule power_le_imp_le_exp [rotated]) simp
  with e0 have e53: "e \<le> 53" by simp
  have il: "ilog 2 (of_nat n) = e"
    using assms(1) by (simp add: ilog_2_of_nat e_def)
  show ?thesis
  proof (cases "e \<le> 52")
    case True
    define k where "k = nat (52 - e)"
    have ulp: "pow2 (e - 52) = 1 / 2 ^ k"
      using True by (auto simp: pow2_def k_def)
    have q: "(of_nat n :: rat) / (1 / 2 ^ k) = of_int (int n * 2 ^ k)"
      by simp
    have "round_half_even (of_nat n / pow2 (e - 52)) = int n * 2 ^ k"
      unfolding ulp q by (rule round_half_even_of_int)
    then show ?thesis
      using assms(1) True e0 il ulp by (simp add: rnd_def Let_def)
  next
    case False
    with e53 have e: "e = 53" by simp
    with lo assms(2) have n: "n = 2 ^ 53"
      by (metis nat_int nat_numeral nat_power_eq le_antisym of_nat_le_iff of_nat_numeral of_nat_power zero_le_numeral)
    have ulp: "pow2 (e - 52) = 2"
      using e by (simp add: pow2_def)
    have "(of_nat n :: rat) / 2 = of_int (2 ^ 52)"
      using n by simp
    then have "round_half_even (of_nat n / pow2 (e - 52)) = 2 ^ 52"
      unfolding ulp using round_half_even_of_int [of "2 ^ 52"] by simp
    then show ?thesis
      using assms(1) e il ulp n by (simp add: rnd_def Let_def)
  qed
qed

lemma number_1: "number 1 = Fin False 1"
  using rnd_of_nat [of 1 False] by (simp add: number_def)

lemma next_id:
  assumes "n < 2 ^ 53"
  shows "num_add (Fin False (of_nat n)) (number 1) = Fin False (of_nat n + 1)"
proof -
  have "rnd False (of_nat (Suc n)) = Fin False (of_nat (Suc n))"
    using assms by (intro rnd_of_nat) simp_all
  moreover have "(of_nat n :: rat) + 1 \<noteq> 0" "\<not> (of_nat n :: rat) + 1 < 0" "\<bar>(of_nat n :: rat) + 1\<bar> = of_nat n + 1"
    by (simp_all add: add_nonneg_eq_0_iff add.commute flip: of_nat_Suc)
  ultimately show ?thesis
    by (simp add: num_add_def number_1 signed_def Let_def add.commute)
qed

section \<open>The conversions on known values\<close>

text \<open>
  The model computes what JavaScript computes on values whose results are well known:
  \<open>0.1\<close> as a binary64 value, ties to even at \<open>2\<^sup>5\<^sup>3\<close>, \<open>0.1 + 0.2\<close>, the renderings
  of Numbers, \<open>Math.round\<close> on ties and negatives, and the string conversions.
\<close>

lemma number_tenth: "number (1 / 10) = Fin False (3602879701896397 / 2 ^ 55)"
  by code_simp

lemma number_ties_to_even:
  "number 9007199254740993 = Fin False 9007199254740992 \<and>
   number 9007199254740995 = Fin False 9007199254740996"
  by code_simp

lemma tenth_plus_fifth:
  "Number_toString (num_add (number (1 / 10)) (number (2 / 10))) = ''0.30000000000000004''"
  by code_simp

lemma Number_toString_known:
  "map Number_toString
     [number (52 / 10), number (10 ^ 21), number (1 / 10 ^ 7), number (- 3 / 2), NaN,
      Fin True 0, Infinity True] =
     [''5.2'', ''1e+21'', ''1e-7'', ''-1.5'', ''NaN'', ''0'', ''-Infinity'']"
  by code_simp

lemma Math_round_known:
  "map Math_round [number (5 / 2), number (- 5 / 2), number (- 1 / 4), number (599 / 10)] =
     [Fin False 3, Fin True 2, Fin True 0, Fin False 60]"
  by code_simp

lemma StringToNumber_known:
  "map StringToNumber ['''', '' 12 '', ''0x1F'', ''1e3'', ''-0'', ''12px'', ''Infinity''] =
     [Fin False 0, Fin False 12, Fin False 31, Fin False 1000, Fin True 0, NaN, Infinity False]"
  by code_simp

lemma parse_known:
  "map parseInt_string [''42abc'', ''abc'', ''0x10'', '' -7'', ''2.9''] =
     [Fin False 42, NaN, Fin False 16, Fin True 7, Fin False 2] \<and>
   map parseFloat_string [''3.5km'', ''.5'', ''km'', ''1e'', ''-Infinity''] =
     [Fin False (7 / 2), Fin False (1 / 2), NaN, Fin False 1, Infinity True]"
  by code_simp

lemma conversions_known:
  "map ToNumber [JNull, JBool True, JArr [], JArr [JStr ''7''], JObj [], JUndefined] =
     [Inr (Fin False 0), Inr (Fin False 1), Inr (Fin False 0), Inr (Fin False 7), Inr NaN, Inr NaN] \<and>
   ToNumber (JObj [(''toString'', JNull)]) = Inl TypeError \<and>
   parseInt (JNum (number (10 ^ 21))) = Inr (Fin False 1) \<and>
   ToString (JArr [JNum (number 1), JNull, JArr [JStr ''a'', JBool False]]) = Inr ''1,,a,false''"
  by code_simp

section \<open>Creating a run\<close>

lemma number_60: "number 60 = Fin False 60"
  using rnd_of_nat [of 60 False] by (simp add: number_def)

lemma padStart_2: "padStart 2 c s = (if length s < 2 then replicate (2 - length s) c @ s else s)"
  by (simp add: padStart_def)

lemma calculatePace_numbers:
  "calculatePace (JNum d) (JNum t) = Inr (spec_pace t d)"
  by (simp add: calculatePace_def ToNumber_def spec_pace_def number_60 Let_def padStart_2 zero_pad2_def)

lemma positive_number_truthy: "positive_number v \<Longrightarrow> truthy v \<and> v = JNum (the_number v)"
  by (auto simp: positive_number_def truthy_def the_number_def split: jsval.splits jsnum.splits)

lemma positive_integer_truthy: "positive_integer v \<Longrightarrow> truthy v \<and> v = JNum (the_number v)"
  by (auto simp: positive_integer_def truthy_def the_number_def split: jsval.splits jsnum.splits)

lemma post_api_runs_numbers:
  assumes "truthy (get_prop req_body ''date'')"
    and "get_prop req_body ''distance'' = JNum d" and "truthy (JNum d)"
    and "get_prop req_body ''duration'' = JNum t" and "truthy (JNum t)"
  shows "\<exists>r. post_api_runs req_body runs = (Replied (Response 201 (RunBody r)), runs @ [r]) \<and>
             pace r = spec_pace t d \<and>
             id_run r = num_add (Fin False (of_nat (length runs))) (number 1)"
  using assms
  by (simp add: post_api_runs_def calculatePace_numbers parseFloat_def parseInt_def Let_def)

lemma example_created:
  "post_api_runs example_body initial_runs =
     (Replied (Response 201 (RunBody
        \<lparr>id_run = Fin False 3, date = JStr ''2024-01-15'', distance = number (52 / 10),
         duration = Fin False 28, pace = ''5:23'', location = JStr ''Central Park''\<rparr>)),
      initial_runs @
        [\<lparr>id_run = Fin False 3, date = JStr ''2024-01-15'', distance = number (52 / 10),
         duration = Fin False 28, pace = ''5:23'', location = JStr ''Central Park''\<rparr>])"
  by code_simp

text \<open>
  Claim C1. For every valid create request (date present, distance a positive number,
  duration a positive integer) the service answers 201 with the new run, appended to the
  collection, and the run's pace is the rendering the specification gives: the floor of
  \<open>duration / distance\<close>, a colon, and the rounded seconds zero-padded to two digits.
  In particular, with the two seed records present, distance 5.2 and duration 28 give
  pace \<open>5:23\<close> and id 3.
\<close>

theorem create_pace:
  "(\<forall>req_body runs. valid_create req_body \<and> length runs < 2 ^ 53 \<longrightarrow>
      (\<exists>r. post_api_runs req_body runs = (Replied (Response 201 (RunBody r)), runs @ [r]) \<and>
           pace r = spec_pace (the_number (get_prop req_body ''duration''))
                              (the_number (get_prop req_body ''distance'')) \<and>
           id_run r = Fin False (of_nat (length runs) + 1))) \<and>
   valid_create example_body \<and>
   (\<exists>r. fst (post_api_runs example_body initial_runs) = Replied (Response 201 (RunBody r)) \<and>
        pace r = ''5:23'' \<and> id_run r = Fin False 3)"
proof (intro conjI allI impI)
  fix req_body and runs :: "run list"
  assume a: "valid_create req_body \<and> length runs < 2 ^ 53"
  let ?d = "get_prop req_body ''distance''" and ?t = "get_prop req_body ''duration''"
  from a have d: "truthy ?d" "?d = JNum (the_number ?d)"
    and t: "truthy ?t" "?t = JNum (the_number ?t)"
    and dt: "truthy (get_prop req_body ''date'')"
    using positive_number_truthy positive_integer_truthy by (simp_all add: valid_create_def)
  from d t have "truthy (JNum (the_number ?d))" "truthy (JNum (the_number ?t))" by simp_all
  from post_api_runs_numbers [OF dt d(2) this(1) t(2) this(2), of runs] a
  show "\<exists>r. post_api_runs req_body runs = (Replied (Response 201 (RunBody r)), runs @ [r]) \<and>
           pace r = spec_pace (the_number ?t) (the_number ?d) \<and>
           id_run r = Fin False (of_nat (length runs) + 1)"
    by (auto simp: next_id)
next
  show "valid_create example_body"
    by code_simp
next
  show "\<exists>r. fst (post_api_runs example_body initial_runs) = Replied (Response 201 (RunBody r)) \<and>
        pace r = ''5:23'' \<and> id_run r = Fin False 3"
    by (simp add: example_created)
qed


theorem create_pace_witness:
  "valid_create second_body \<and> length initial_runs < 2 ^ 53 \<and>
   (\<exists>r. post_api_runs second_body initial_runs =
          (Replied (Response 201 (RunBody r)), initial_runs @ [r]) \<and>
        pace r = ''5:48'' \<and> id_run r = Fin False 3)"
proof -
  have v: "valid_create second_body"
    by code_simp
  have l: "length initial_runs < 2 ^ 53"
    by (simp add: initial_runs_def)
  have p: "spec_pace (the_number (get_prop second_body ''duration''))
                     (the_number (get_prop second_body ''distance'')) = ''5:48''"
    by code_simp
  from create_pace v l
  have "\<exists>r. post_api_runs second_body initial_runs =
            (Replied (Response 201 (RunBody r)), initial_runs @ [r]) \<and>
          pace r = spec_pace (the_number (get_prop second_body ''duration''))
                             (the_number (get_prop second_body ''distance'')) \<and>
          id_run r = Fin False (of_nat (length initial_runs) + 1)"
    by blast
  with v l p show ?thesis
    by (simp add: initial_runs_def)
qed

section \<open>Validation\<close>

lemma falsy_iff:
  "(\<not> truthy v) =
   (v = JUndefined \<or> v = JNull \<or> v = JBool False \<or> v = JStr [] \<or> v = JNum NaN \<or>
    (\<exists>s. v = JNum (Fin s 0)))"
  by (auto simp: truthy_def split: jsval.splits jsnum.splits)

lemma post_api_runs_rejects:
  "\<not> truthy (get_prop b ''date'') \<or> \<not> truthy (get_prop b ''distance'') \<or>
   \<not> truthy (get_prop b ''duration'') \<Longrightarrow>
   post_api_runs b runs = (MissingField, runs)"
  by (auto simp: post_api_runs_def MissingField_def Let_def)

lemma post_api_runs_accepts:
  assumes "truthy (get_prop b ''date'')" "truthy (get_prop b ''distance'')"
    "truthy (get_prop b ''duration'')"
  shows "(\<exists>e. post_api_runs b runs = (Threw e, runs)) \<or>
         (\<exists>r. post_api_runs b runs = (Replied (Response 201 (RunBody r)), runs @ [r]) \<and>
              id_run r = num_add (Fin False (of_nat (length runs))) (number 1))"
  using assms by (auto simp: post_api_runs_def Let_def split: sum.splits)

lemma post_api_runs_cases:
  "post_api_runs b runs = (MissingField, runs) \<or>
   (\<exists>e. post_api_runs b runs = (Threw e, runs)) \<or>
   (\<exists>r. post_api_runs b runs = (Replied (Response 201 (RunBody r)), runs @ [r]) \<and>
        id_run r = num_add (Fin False (of_nat (length runs))) (number 1))"
  using post_api_runs_rejects [of b runs] post_api_runs_accepts [of b runs] by blast

text \<open>
  Claim C2, as amended. A create request fails with MissingField (status 400) exactly
  when \<open>date\<close>, \<open>distance\<close> or \<open>duration\<close> is falsy, and then the collection is
  unchanged. The falsy values are: an absent property, \<open>null\<close>, \<open>false\<close>, the empty
  string, \<open>NaN\<close>, and the numbers \<open>0\<close> and \<open>-0\<close>.
\<close>

theorem missing_field_iff:
  "(fst (post_api_runs b runs) = MissingField) =
     (\<not> truthy (get_prop b ''date'') \<or> \<not> truthy (get_prop b ''distance'') \<or>
      \<not> truthy (get_prop b ''duration'')) \<and>
   (fst (post_api_runs b runs) = MissingField \<longrightarrow> snd (post_api_runs b runs) = runs) \<and>
   (\<forall>v. (\<not> truthy v) =
     (v = JUndefined \<or> v = JNull \<or> v = JBool False \<or> v = JStr [] \<or> v = JNum NaN \<or>
      (\<exists>s. v = JNum (Fin s 0))))"
proof (intro conjI allI)
  show "(fst (post_api_runs b runs) = MissingField) =
     (\<not> truthy (get_prop b ''date'') \<or> \<not> truthy (get_prop b ''distance'') \<or>
      \<not> truthy (get_prop b ''duration''))"
    using post_api_runs_rejects [of b runs] post_api_runs_accepts [of b runs]
    by (auto simp: MissingField_def)
  show "fst (post_api_runs b runs) = MissingField \<longrightarrow> snd (post_api_runs b runs) = runs"
    using post_api_runs_cases [of b runs] by (auto simp: MissingField_def)
  show "(\<not> truthy v) =
     (v = JUndefined \<or> v = JNull \<or> v = JBool False \<or> v = JStr [] \<or> v = JNum NaN \<or>
      (\<exists>s. v = JNum (Fin s 0)))" for v
    by (rule falsy_iff)
qed

theorem missing_field_iff_witness:
  "\<not> truthy (get_prop zero_distance_body ''distance'') \<and>
   post_api_runs zero_distance_body initial_runs = (MissingField, initial_runs)"
proof -
  have f: "\<not> truthy (get_prop zero_distance_body ''distance'')"
    by code_simp
  with missing_field_iff [of zero_distance_body initial_runs]
  have "fst (post_api_runs zero_distance_body initial_runs) = MissingField"
    and "snd (post_api_runs zero_distance_body initial_runs) = initial_runs"
    by blast+
  with f show ?thesis
    by (simp add: prod_eq_iff)
qed


text \<open>
  The claim as stated fails: with \<open>distance\<close> the JSON number \<open>0\<close> the request is
  refused as MissingField although none of the three fields is absent or empty.
\<close>

theorem missing_field_counterexample:
  "fst (post_api_runs zero_distance_body initial_runs) = MissingField \<and>
   \<not> absent_or_empty (get_prop zero_distance_body ''date'') \<and>
   \<not> absent_or_empty (get_prop zero_distance_body ''distance'') \<and>
   \<not> absent_or_empty (get_prop zero_distance_body ''duration'')"
  by code_simp

lemma string_zero_created:
  "post_api_runs string_zero_body initial_runs =
     (Replied (Response 201 (RunBody
        \<lparr>id_run = Fin False 3, date = JStr ''2024-01-15'', distance = Fin False 0,
         duration = Fin False 28, pace = ''Infinity:NaN'', location = JStr ''Unknown''\<rparr>)),
      initial_runs @
        [\<lparr>id_run = Fin False 3, date = JStr ''2024-01-15'', distance = Fin False 0,
         duration = Fin False 28, pace = ''Infinity:NaN'', location = JStr ''Unknown''\<rparr>])"
  by code_simp

text \<open>
  Claim C9. A create request whose \<open>distance\<close> or \<open>duration\<close> is the JSON number
  \<open>0\<close> (or \<open>-0\<close>) fails with MissingField and appends nothing. A request that passes
  validation with a distance that converts to zero carries a truthy value that is not a
  JSON number; the string \<open>"0"\<close> is one, and its pace is \<open>Infinity:NaN\<close>.
\<close>

theorem zero_is_missing:
  "(\<forall>b runs s. get_prop b ''distance'' = JNum (Fin s 0) \<or> get_prop b ''duration'' = JNum (Fin s 0) \<longrightarrow>
      post_api_runs b runs = (MissingField, runs)) \<and>
   (\<forall>b runs s. fst (post_api_runs b runs) \<noteq> MissingField \<and>
        ToNumber (get_prop b ''distance'') = Inr (Fin s 0) \<longrightarrow>
      truthy (get_prop b ''distance'') \<and> (\<forall>x. get_prop b ''distance'' \<noteq> JNum x)) \<and>
   truthy (get_prop string_zero_body ''distance'') \<and>
   ToNumber (get_prop string_zero_body ''distance'') = Inr (Fin False 0) \<and>
   (\<exists>r. fst (post_api_runs string_zero_body initial_runs) = Replied (Response 201 (RunBody r)) \<and>
        pace r = ''Infinity:NaN'')"
proof (intro conjI allI impI)
  fix b and runs :: "run list" and s
  assume "get_prop b ''distance'' = JNum (Fin s 0) \<or> get_prop b ''duration'' = JNum (Fin s 0)"
  then have "\<not> truthy (get_prop b ''distance'') \<or> \<not> truthy (get_prop b ''duration'')"
    by (auto simp: truthy_def)
  then show "post_api_runs b runs = (MissingField, runs)"
    by (intro post_api_runs_rejects) blast
next
  fix b and runs :: "run list" and s
  assume a: "fst (post_api_runs b runs) \<noteq> MissingField \<and>
        ToNumber (get_prop b ''distance'') = Inr (Fin s 0)"
  show t: "truthy (get_prop b ''distance'')"
  proof (rule ccontr)
    assume "\<not> truthy (get_prop b ''distance'')"
    then have "post_api_runs b runs = (MissingField, runs)"
      by (intro post_api_runs_rejects) blast
    with a show False by simp
  qed
  from t a show "get_prop b ''distance'' \<noteq> JNum x" for x
    by (auto simp: ToNumber_def truthy_def)
next
  show "truthy (get_prop string_zero_body ''distance'')"
    by code_simp
  show "ToNumber (get_prop string_zero_body ''distance'') = Inr (Fin False 0)"
    by code_simp
  show "\<exists>r. fst (post_api_runs string_zero_body initial_runs) = Replied (Response 201 (RunBody r)) \<and>
        pace r = ''Infinity:NaN''"
    by (simp add: string_zero_created)
qed

theorem zero_is_missing_witness:
  "get_prop zero_distance_body ''distance'' = JNum (Fin False 0) \<and>
   post_api_runs zero_distance_body initial_runs = (MissingField, initial_runs) \<and>
   fst (post_api_runs string_zero_body initial_runs) \<noteq> MissingField \<and>
   ToNumber (get_prop string_zero_body ''distance'') = Inr (Fin False 0) \<and>
   truthy (get_prop string_zero_body ''distance'') \<and>
   get_prop string_zero_body ''distance'' \<noteq> JNum (Fin False 0)"
proof -
  have d: "get_prop zero_distance_body ''distance'' = JNum (Fin False 0)"
    by code_simp
  have n: "fst (post_api_runs string_zero_body initial_runs) \<noteq> MissingField"
    by (simp add: string_zero_created MissingField_def)
  have z: "ToNumber (get_prop string_zero_body ''distance'') = Inr (Fin False 0)"
    by code_simp
  from zero_is_missing d
  have 1: "post_api_runs zero_distance_body initial_runs = (MissingField, initial_runs)"
    by blast
  from zero_is_missing n z
  have 2: "truthy (get_prop string_zero_body ''distance'') \<and>
           (\<forall>x. get_prop string_zero_body ''distance'' \<noteq> JNum x)"
    by blast
  from d n z 1 2 show ?thesis
    by blast
qed

text \<open>
  Claim C10. The valid request with distance 1.002 and duration 2 has rounded seconds
  equal to 60: its pace is \<open>1:60\<close>, with no carry into the minutes.
\<close>

theorem seconds_sixty:
  "valid_create one_sixty_body \<and>
   (\<exists>r. post_api_runs one_sixty_body initial_runs =
          (Replied (Response 201 (RunBody r)), initial_runs @ [r]) \<and>
        pace r = ''1:60'') \<and>
   Math_round (num_mul (num_sub (num_div (number 2) (number (1002 / 1000)))
                                (Math_floor (num_div (number 2) (number (1002 / 1000)))))
                       (number 60)) = Fin False 60"
proof (intro conjI)
  show "valid_create one_sixty_body"
    by code_simp
  have "post_api_runs one_sixty_body initial_runs =
     (Replied (Response 201 (RunBody
        \<lparr>id_run = Fin False 3, date = JStr ''2024-01-15'', distance = number (1002 / 1000),
         duration = Fin False 2, pace = ''1:60'', location = JStr ''Unknown''\<rparr>)),
      initial_runs @
        [\<lparr>id_run = Fin False 3, date = JStr ''2024-01-15'', distance = number (1002 / 1000),
         duration = Fin False 2, pace = ''1:60'', location = JStr ''Unknown''\<rparr>])"
    by code_simp
  then show "\<exists>r. post_api_runs one_sixty_body initial_runs =
          (Replied (Response 201 (RunBody r)), initial_runs @ [r]) \<and> pace r = ''1:60''"
    by simp
  show "Math_round (num_mul (num_sub (num_div (number 2) (number (1002 / 1000)))
                                (Math_floor (num_div (number 2) (number (1002 / 1000)))))
                       (number 60)) = Fin False 60"
    by code_simp
qed


theorem seconds_sixty_witness:
  "\<exists>r. snd (post_api_runs one_sixty_body initial_runs) = initial_runs @ [r] \<and>
        drop 2 (pace r) = ''60''"
  using seconds_sixty by auto

section \<open>Identifiers\<close>

lemma delete_first_seed:
  "delete_api_runs_id ''1'' initial_runs = (Replied (Response 204 NoBody), tl initial_runs)"
  by code_simp

lemma create_after_delete:
  "post_api_runs example_body (tl initial_runs) =
     (Replied (Response 201 (RunBody recreated_run)), tl initial_runs @ [recreated_run])"
  by code_simp

lemma second_seed_id: "map id_run (tl initial_runs) = [Fin False 2]"
  by code_simp

lemma serve_sample:
  "serve sample_requests initial_runs = tl initial_runs @ [recreated_run]"
  by (simp add: sample_requests_def delete_first_seed create_after_delete
      get_api_runs_def get_health_def)

lemma created_sample:
  "created sample_requests initial_runs = [recreated_run]"
  by (simp add: sample_requests_def delete_first_seed create_after_delete
      get_api_runs_def get_health_def)

lemma second_created:
  "post_api_runs second_body initial_runs =
     (Replied (Response 201 (RunBody
        \<lparr>id_run = Fin False 3, date = JStr ''2024-01-17'', distance = number (31 / 10),
         duration = Fin False 18, pace = ''5:48'', location = JStr ''Riverside Trail''\<rparr>)),
      initial_runs @
        [\<lparr>id_run = Fin False 3, date = JStr ''2024-01-17'', distance = number (31 / 10),
         duration = Fin False 18, pace = ''5:48'', location = JStr ''Riverside Trail''\<rparr>])"
  by code_simp

lemma post_api_runs_created:
  assumes "post_api_runs b runs = (Replied (Response 201 (RunBody r)), runs')"
  shows "runs' = runs @ [r] \<and>
         id_run r = num_add (Fin False (of_nat (length runs))) (number 1)"
  using post_api_runs_cases [of b runs] assms by (auto simp: MissingField_def)

text \<open>
  Claim C3. Every successful create gives the new run the id \<open>length + 1\<close> of the
  collection it is appended to. Consequently ids can repeat: on the seeded service,
  deleting the record with id 1 (not the last one) and then creating a run leaves two
  records with id 2.
\<close>

theorem id_is_length_plus_one:
  "(\<forall>b runs r runs'. length runs < 2 ^ 53 \<and>
       post_api_runs b runs = (Replied (Response 201 (RunBody r)), runs') \<longrightarrow>
     id_run r = Fin False (of_nat (length runs) + 1) \<and> runs' = runs @ [r]) \<and>
   fst (handle (DeleteRun ''1'') initial_runs) = Replied (Response 204 NoBody) \<and>
   (\<exists>r. fst (handle (CreateRun example_body) (serve [DeleteRun ''1''] initial_runs)) =
          Replied (Response 201 (RunBody r))) \<and>
   map id_run (serve [DeleteRun ''1'', CreateRun example_body] initial_runs) =
     [Fin False 2, Fin False 2]"
proof (intro conjI allI impI)
  fix b and runs runs' :: "run list" and r
  assume a: "length runs < 2 ^ 53 \<and>
       post_api_runs b runs = (Replied (Response 201 (RunBody r)), runs')"
  with post_api_runs_created [of b runs r runs']
  show "id_run r = Fin False (of_nat (length runs) + 1)" and "runs' = runs @ [r]"
    by (simp_all add: next_id)
next
  show "fst (handle (DeleteRun ''1'') initial_runs) = Replied (Response 204 NoBody)"
    by (simp add: delete_first_seed)
  show "\<exists>r. fst (handle (CreateRun example_body) (serve [DeleteRun ''1''] initial_runs)) =
          Replied (Response 201 (RunBody r))"
    by (simp add: delete_first_seed create_after_delete)
  show "map id_run (serve [DeleteRun ''1'', CreateRun example_body] initial_runs) =
     [Fin False 2, Fin False 2]"
    by (simp add: delete_first_seed create_after_delete second_seed_id recreated_run_def)
qed

theorem id_is_length_plus_one_witness:
  "length initial_runs < 2 ^ 53 \<and>
   (\<exists>r. post_api_runs second_body initial_runs =
          (Replied (Response 201 (RunBody r)), initial_runs @ [r]) \<and>
        id_run r = Fin False 3)"
proof -
  have l: "length initial_runs < 2 ^ 53"
    by (simp add: initial_runs_def)
  from second_created obtain r runs' where
    p: "post_api_runs second_body initial_runs = (Replied (Response 201 (RunBody r)), runs')"
    by blast
  with id_is_length_plus_one l
  have "id_run r = Fin False (of_nat (length initial_runs) + 1) \<and> runs' = initial_runs @ [r]"
    by blast
  with p l show ?thesis
    by (auto simp: initial_runs_def)
qed

section \<open>Deleting a run\<close>

lemma findIndex_from_eq:
  "findIndex_from p xs k =
     (if \<exists>x\<in>set xs. p x then k + int (length (takeWhile (\<lambda>x. \<not> p x) xs)) else - 1)"
  by (induction xs arbitrary: k) auto

lemma findIndex_eq:
  "findIndex p xs =
     (if \<exists>x\<in>set xs. p x then int (length (takeWhile (\<lambda>x. \<not> p x) xs)) else - 1)"
  by (simp add: findIndex_def findIndex_from_eq)

lemma splice_one:
  "i < length xs \<Longrightarrow> splice (int i) 1 xs = take i xs @ drop (Suc i) xs"
  by (simp add: splice_def Let_def min_def nat_add_distrib)

lemma takeWhile_short:
  "\<exists>x\<in>set xs. p x \<Longrightarrow> length (takeWhile (\<lambda>x. \<not> p x) xs) < length xs"
  by (induction xs) auto

lemma splice_first_match:
  assumes "\<exists>x\<in>set xs. p x"
  shows "splice (int (length (takeWhile (\<lambda>x. \<not> p x) xs))) 1 xs =
           takeWhile (\<lambda>x. \<not> p x) xs @ tl (dropWhile (\<lambda>x. \<not> p x) xs)"
proof -
  let ?i = "length (takeWhile (\<lambda>x. \<not> p x) xs)"
  from assms have i: "?i < length xs"
    by (rule takeWhile_short)
  have "take ?i xs = takeWhile (\<lambda>x. \<not> p x) xs"
    by (rule takeWhile_eq_take [symmetric])
  moreover have "drop (Suc ?i) xs = tl (drop ?i xs)"
    by (simp only: drop_Suc tl_drop)
  then have "drop (Suc ?i) xs = tl (dropWhile (\<lambda>x. \<not> p x) xs)"
    by (simp only: dropWhile_eq_drop)
  ultimately show ?thesis
    using i by (simp add: splice_one)
qed

lemma parseInt_JStr: "parseInt (JStr s) = Inr (parseInt_string s)"
  by (simp add: parseInt_def)

lemma delete_found:
  assumes "\<exists>r\<in>set runs. matches_id params_id r"
  shows "delete_api_runs_id params_id runs =
           (Replied (Response 204 NoBody),
            takeWhile (\<lambda>r. \<not> matches_id params_id r) runs @
            tl (dropWhile (\<lambda>r. \<not> matches_id params_id r) runs))"
  using assms splice_first_match [OF assms]
  by (simp add: delete_api_runs_id_def parseInt_JStr findIndex_eq Let_def matches_id_def [abs_def])

lemma delete_not_found:
  assumes "\<not> (\<exists>r\<in>set runs. matches_id params_id r)"
  shows "delete_api_runs_id params_id runs = (NotFound, runs)"
  using assms
  by (simp add: delete_api_runs_id_def parseInt_JStr findIndex_eq Let_def matches_id_def [abs_def] NotFound_def)

text \<open>
  Claim C4. When the id of a delete request matches some record, the service answers
  204 with no body and removes exactly the first matching record: the records before
  it and after it stay, in their order, and the collection is one shorter.
\<close>

theorem delete_removes_first_match:
  assumes "\<exists>r\<in>set runs. matches_id params_id r"
  shows "\<exists>before r after.
           runs = before @ r # after \<and>
           (\<forall>x\<in>set before. \<not> matches_id params_id x) \<and> matches_id params_id r \<and>
           delete_api_runs_id params_id runs = (Replied (Response 204 NoBody), before @ after) \<and>
           length (snd (delete_api_runs_id params_id runs)) + 1 = length runs"
proof -
  let ?P = "\<lambda>r. \<not> matches_id params_id r"
  from assms have ne: "dropWhile ?P runs \<noteq> []"
    by (auto simp: dropWhile_eq_Nil_conv)
  then obtain r after where d: "dropWhile ?P runs = r # after"
    by (cases "dropWhile ?P runs") auto
  then have m: "matches_id params_id r"
    using hd_dropWhile [OF ne] by simp
  have split: "runs = takeWhile ?P runs @ r # after"
    using takeWhile_dropWhile_id [of ?P runs] d by simp
  have b: "\<forall>x\<in>set (takeWhile ?P runs). \<not> matches_id params_id x"
    by (auto dest: set_takeWhileD)
  have res: "delete_api_runs_id params_id runs =
               (Replied (Response 204 NoBody), takeWhile ?P runs @ after)"
    using delete_found [OF assms] d by simp
  have "length (takeWhile ?P runs @ after) + 1 = length runs"
    by (subst (2) split) simp
  with split b m res show ?thesis
    by (intro exI [of _ "takeWhile ?P runs"] exI [of _ r] exI [of _ after]) simp
qed

theorem delete_removes_first_match_witness:
  "(\<exists>r\<in>set initial_runs. matches_id ''1'' r) \<and>
   delete_api_runs_id ''1'' initial_runs = (Replied (Response 204 NoBody), tl initial_runs) \<and>
   length (tl initial_runs) + 1 = length initial_runs"
proof -
  have m: "matches_id ''1'' (initial_runs ! 0)" "\<not> matches_id ''1'' (initial_runs ! 1)"
    by code_simp+
  then have e: "\<exists>r\<in>set initial_runs. matches_id ''1'' r"
    by (auto simp: initial_runs_def)
  from delete_removes_first_match [OF e] obtain before r after where
    s: "initial_runs = before @ r # after" and
    b: "\<forall>x\<in>set before. \<not> matches_id ''1'' x" and
    d: "delete_api_runs_id ''1'' initial_runs = (Replied (Response 204 NoBody), before @ after)"
    by blast
  have "before = []"
  proof (cases before)
    case (Cons x xs)
    with s have "x = initial_runs ! 0" by (metis append_Cons nth_Cons_0)
    with b Cons m show ?thesis by simp
  qed simp
  then have bn: "before = []" .
  with s have "after = tl initial_runs"
    by (metis append_Nil list.sel(3))
  with d bn have "delete_api_runs_id ''1'' initial_runs = (Replied (Response 204 NoBody), tl initial_runs)"
    by simp
  with e show ?thesis
    by (simp add: initial_runs_def)
qed

text \<open>
  Claim C5. When the id of a delete request matches no record, the service answers
  NotFound (status 404) and the collection is the same list as before.
\<close>

theorem delete_unknown_id:
  assumes "\<not> (\<exists>r\<in>set runs. matches_id params_id r)"
  shows "delete_api_runs_id params_id runs = (NotFound, runs)"
  using assms by (rule delete_not_found)

theorem delete_unknown_id_witness:
  "\<not> (\<exists>r\<in>set initial_runs. matches_id ''7'' r) \<and>
   delete_api_runs_id ''7'' initial_runs = (NotFound, initial_runs)"
proof -
  have "\<not> matches_id ''7'' (initial_runs ! 0)" "\<not> matches_id ''7'' (initial_runs ! 1)"
    by code_simp+
  then have n: "\<not> (\<exists>r\<in>set initial_runs. matches_id ''7'' r)"
    by (auto simp: initial_runs_def)
  with delete_unknown_id [OF n] show ?thesis
    by simp
qed

section \<open>Listing the runs\<close>

text \<open>
  Claim C6. Listing always answers 200 with the whole collection, in its order, and
  leaves it unchanged. After two successful creates it returns the earlier records
  followed by the two new ones in creation order, with the distinct ids
  \<open>length + 1\<close> and \<open>length + 2\<close>.
\<close>

theorem list_runs:
  "get_api_runs runs = (Replied (Response 200 (RunsBody runs)), runs) \<and>
   (length runs + 1 < 2 ^ 53 \<and>
    post_api_runs b1 runs = (Replied (Response 201 (RunBody r1)), runs1) \<and>
    post_api_runs b2 runs1 = (Replied (Response 201 (RunBody r2)), runs2) \<longrightarrow>
      get_api_runs runs2 =
        (Replied (Response 200 (RunsBody (runs @ [r1, r2]))), runs @ [r1, r2]) \<and>
      id_run r1 = Fin False (of_nat (length runs) + 1) \<and>
      id_run r2 = Fin False (of_nat (length runs) + 2) \<and>
      \<not> num_strict_eq (id_run r1) (id_run r2))"
proof (intro conjI impI)
  show "get_api_runs runs = (Replied (Response 200 (RunsBody runs)), runs)"
    by (simp add: get_api_runs_def)
next
  assume a: "length runs + 1 < 2 ^ 53 \<and>
    post_api_runs b1 runs = (Replied (Response 201 (RunBody r1)), runs1) \<and>
    post_api_runs b2 runs1 = (Replied (Response 201 (RunBody r2)), runs2)"
  then have 1: "runs1 = runs @ [r1]"
    and i1: "id_run r1 = num_add (Fin False (of_nat (length runs))) (number 1)"
    using post_api_runs_created [of b1 runs r1 runs1] by simp_all
  from a have 2: "runs2 = runs1 @ [r2]"
    and i2: "id_run r2 = num_add (Fin False (of_nat (length runs1))) (number 1)"
    using post_api_runs_created [of b2 runs1 r2 runs2] by simp_all
  from a have l: "length runs < 2 ^ 53" "length runs1 < 2 ^ 53"
    by (simp_all add: 1)
  show "get_api_runs runs2 =
        (Replied (Response 200 (RunsBody (runs @ [r1, r2]))), runs @ [r1, r2])"
    by (simp add: get_api_runs_def 1 2)
  show j1: "id_run r1 = Fin False (of_nat (length runs) + 1)"
    using i1 l(1) by (simp add: next_id)
  have "num_add (Fin False (of_nat (length runs1))) (number 1) =
          Fin False (of_nat (length runs1) + 1)"
    using l(2) by (rule next_id)
  with i2 show j2: "id_run r2 = Fin False (of_nat (length runs) + 2)"
    by (simp add: 1)
  show "\<not> num_strict_eq (id_run r1) (id_run r2)"
    by (simp add: j1 j2 num_strict_eq_def)
qed

theorem list_runs_witness:
  "length initial_runs + 1 < 2 ^ 53 \<and>
   (\<exists>r1 r2. fst (get_api_runs (serve [CreateRun example_body, CreateRun second_body] initial_runs)) =
            Replied (Response 200 (RunsBody (initial_runs @ [r1, r2]))) \<and>
          id_run r1 = Fin False 3 \<and> id_run r2 = Fin False 4)"
proof -
  have l: "length initial_runs + 1 < 2 ^ 53"
    by (simp add: initial_runs_def)
  obtain r1 where p1: "post_api_runs example_body initial_runs =
      (Replied (Response 201 (RunBody r1)), initial_runs @ [r1])"
    using example_created by blast
  have "\<exists>r2. post_api_runs second_body (initial_runs @ [r1]) =
      (Replied (Response 201 (RunBody r2)), (initial_runs @ [r1]) @ [r2])"
  proof -
    have "truthy (get_prop second_body ''date'')"
      and "get_prop second_body ''distance'' = JNum (number (31 / 10))"
      and "truthy (JNum (number (31 / 10)))"
      and "get_prop second_body ''duration'' = JNum (number 18)"
      and "truthy (JNum (number 18))"
      by code_simp+
    from post_api_runs_numbers [OF this] show ?thesis
      by blast
  qed
  then obtain r2 where p2: "post_api_runs second_body (initial_runs @ [r1]) =
      (Replied (Response 201 (RunBody r2)), (initial_runs @ [r1]) @ [r2])"
    by blast
  from list_runs [of initial_runs example_body r1 "initial_runs @ [r1]" second_body r2
      "(initial_runs @ [r1]) @ [r2]"] l p1 p2
  have "get_api_runs ((initial_runs @ [r1]) @ [r2]) =
        (Replied (Response 200 (RunsBody (initial_runs @ [r1, r2]))), initial_runs @ [r1, r2]) \<and>
      id_run r1 = Fin False (of_nat (length initial_runs) + 1) \<and>
      id_run r2 = Fin False (of_nat (length initial_runs) + 2)"
    by blast
  with l p1 p2 show ?thesis
    by (auto simp: initial_runs_def)
qed

section \<open>Records are never modified\<close>

lemma subseq_without_first_match:
  "subseq (takeWhile P xs @ tl (dropWhile P xs)) xs"
proof -
  have "subseq (tl (dropWhile P xs)) (dropWhile P xs)"
    by (rule suffix_imp_subseq) (rule suffix_tl)
  then have "subseq (takeWhile P xs @ tl (dropWhile P xs)) (takeWhile P xs @ dropWhile P xs)"
    by (simp only: subseq_append')
  then show ?thesis
    by simp
qed

lemma delete_subseq: "subseq (snd (delete_api_runs_id params_id runs)) runs"
proof (cases "\<exists>r\<in>set runs. matches_id params_id r")
  case True
  then show ?thesis
    by (simp add: delete_found subseq_without_first_match)
next
  case False
  then show ?thesis
    by (simp add: delete_not_found)
qed

lemma delete_no_run_body:
  "fst (delete_api_runs_id params_id runs) \<noteq> Replied (Response st (RunBody r))"
  by (cases "\<exists>r\<in>set runs. matches_id params_id r")
    (simp_all add: delete_found delete_not_found NotFound_def)

lemma handle_step:
  "(\<exists>r. handle rq runs = (Replied (Response 201 (RunBody r)), runs @ [r])) \<or>
   ((\<forall>st r. fst (handle rq runs) \<noteq> Replied (Response st (RunBody r))) \<and>
    subseq (snd (handle rq runs)) runs)"
proof (cases rq)
  case ListRuns
  then show ?thesis by (simp add: get_api_runs_def)
next
  case (CreateRun b)
  with post_api_runs_cases [of b runs] show ?thesis
    by (auto simp: MissingField_def)
next
  case (DeleteRun p)
  then show ?thesis by (simp add: delete_subseq delete_no_run_body)
next
  case (Health now)
  then show ?thesis by (simp add: get_health_def)
qed

lemma created_Cons_run:
  "handle rq runs = (Replied (Response st (RunBody r)), runs') \<Longrightarrow>
   created (rq # rqs) runs = r # created rqs runs'"
  by simp

lemma created_Cons_other:
  "\<forall>st r. fst (handle rq runs) \<noteq> Replied (Response st (RunBody r)) \<Longrightarrow>
   created (rq # rqs) runs = created rqs (snd (handle rq runs))"
  by (cases "handle rq runs")
    (auto split: outcome.splits response.splits payload.splits)

lemma serve_subseq:
  "subseq runs inserted \<Longrightarrow> subseq (serve rqs runs) (inserted @ created rqs runs)"
proof (induction rqs arbitrary: runs inserted)
  case Nil
  then show ?case by simp
next
  case (Cons rq rqs)
  from handle_step [of rq runs] show ?case
  proof (elim disjE exE conjE)
    fix r
    assume h: "handle rq runs = (Replied (Response 201 (RunBody r)), runs @ [r])"
    from Cons.prems have "subseq (runs @ [r]) (inserted @ [r])"
      by simp
    from Cons.IH [OF this] show ?thesis
      by (simp add: h created_Cons_run [OF h] del: created.simps)
  next
    assume n: "\<forall>st r. fst (handle rq runs) \<noteq> Replied (Response st (RunBody r))"
      and s: "subseq (snd (handle rq runs)) runs"
    from s Cons.prems have "subseq (snd (handle rq runs)) inserted"
      by (rule subseq_order.trans)
    from Cons.IH [OF this] show ?thesis
      by (simp add: created_Cons_other [OF n] del: created.simps)
  qed
qed

text \<open>
  Claim C7. No request modifies a record. After any sequence of requests on the seeded
  service, the collection is a subsequence of the records as they were inserted (the
  two seed records, then every created run as it was answered, in order); and each
  single request leaves a subsequence of the records before it and the run it created.
\<close>

theorem records_never_modified:
  "subseq (serve rqs initial_runs) (initial_runs @ created rqs initial_runs) \<and>
   subseq (snd (handle rq runs)) (runs @ created [rq] runs)"
proof
  show "subseq (serve rqs initial_runs) (initial_runs @ created rqs initial_runs)"
    by (rule serve_subseq) simp
  have "subseq (serve [rq] runs) (runs @ created [rq] runs)"
    by (rule serve_subseq) simp
  then show "subseq (snd (handle rq runs)) (runs @ created [rq] runs)"
    by simp
qed

theorem records_never_modified_witness:
  "subseq (tl initial_runs @ [recreated_run]) (initial_runs @ [recreated_run]) \<and>
   serve sample_requests initial_runs = tl initial_runs @ [recreated_run] \<and>
   created sample_requests initial_runs = [recreated_run]"
  using records_never_modified [of sample_requests]
  by (simp add: serve_sample created_sample)

section \<open>Health check\<close>

text \<open>
  Claim C8. The health check answers 200 with status \<open>healthy\<close> and the current
  timestamp, whatever the collection holds, and does not touch the collection.
\<close>

theorem health_always_healthy:
  "get_health now runs = (Replied (Response 200 (HealthBody ''healthy'' now)), runs)"
  by (simp add: get_health_def)

theorem health_always_healthy_witness:
  "fst (get_health ''2024-01-15T10:00:00.000Z'' []) =
     Replied (Response 200 (HealthBody ''healthy'' ''2024-01-15T10:00:00.000Z'')) \<and>
   get_health ''2024-01-15T10:00:00.000Z'' initial_runs =
     (Replied (Response 200 (HealthBody ''healthy'' ''2024-01-15T10:00:00.000Z'')), initial_runs)"
  using health_always_healthy [of "''2024-01-15T10:00:00.000Z''" "[]"]
    health_always_healthy [of "''2024-01-15T10:00:00.000Z''" initial_runs]
  by simp

end
